theory Spec2Isabelle
  imports Main "HOL-Library.Word" "HOL-Library.Sublist" "HOL-Library.Code_Target_Nat"
begin

section \<open>Values of the JavaScript runtime\<close>

text \<open>
  A JavaScript string is a sequence of UTF-16 code units and a \<^verbatim>\<open>Buffer\<close> a
  sequence of bytes. \<open>js\<close> writes a string literal of the source.
\<close>

type_synonym jsstring = "16 word list"
type_synonym bytes = "8 word list"

definition js :: "string \<Rightarrow> jsstring" where
  "js s = map (\<lambda>c. of_nat (of_char c)) s"

text \<open>
  \<^verbatim>\<open>String.prototype.trim\<close>: strips white space and line terminators (ECMAScript
  \<^verbatim>\<open>WhiteSpace\<close> and \<^verbatim>\<open>LineTerminator\<close>, all of them single code units) from both ends.
\<close>

definition js_whitespace :: "16 word \<Rightarrow> bool" where
  "js_whitespace c =
     (c = 0x9 \<or> c = 0xA \<or> c = 0xB \<or> c = 0xC \<or> c = 0xD \<or> c = 0x20 \<or> c = 0xA0 \<or>
      c = 0x1680 \<or> (0x2000 \<le> c \<and> c \<le> 0x200A) \<or> c = 0x2028 \<or> c = 0x2029 \<or>
      c = 0x202F \<or> c = 0x205F \<or> c = 0x3000 \<or> c = 0xFEFF)"

definition trim :: "jsstring \<Rightarrow> jsstring" where
  "trim s = rev (dropWhile js_whitespace (rev (dropWhile js_whitespace s)))"

text \<open>
  \<^verbatim>\<open>buf.toString('base64')\<close>: the standard alphabet of RFC 4648, with padding.
\<close>

definition b64_alphabet :: string where
  "b64_alphabet = ''ABCDEFGHIJKLMNOPQRSTUVWXYZabcdefghijklmnopqrstuvwxyz0123456789+/''"

definition b64_char :: "nat \<Rightarrow> 16 word" where
  "b64_char n = of_nat (of_char (b64_alphabet ! (n mod 64)))"

definition b64_pad :: "16 word" where
  "b64_pad = 0x3D"

fun base64_encode :: "bytes \<Rightarrow> jsstring" where
  "base64_encode (a # b # c # rest) =
     (let n = unat a * 65536 + unat b * 256 + unat c
      in [b64_char (n div 262144), b64_char (n div 4096), b64_char (n div 64), b64_char n])
     @ base64_encode rest"
| "base64_encode [a, b] =
     (let n = unat a * 65536 + unat b * 256
      in [b64_char (n div 262144), b64_char (n div 4096), b64_char (n div 64), b64_pad])"
| "base64_encode [a] =
     (let n = unat a * 65536
      in [b64_char (n div 262144), b64_char (n div 4096), b64_pad, b64_pad])"
| "base64_encode [] = []"

text \<open>
  \<^verbatim>\<open>Buffer.from(s, 'base64')\<close> belongs to the runtime and is a parameter of the model
  (\<open>from_base64\<close> below). \<open>base64_decode\<close> is the decoder used for concrete runs: it
  reads the sextets of the characters of either alphabet up to the first \<^verbatim>\<open>=\<close>, skips
  every other character, and emits the whole bytes.
\<close>

definition b64_value :: "16 word \<Rightarrow> nat option" where
  "b64_value c =
     (let n = unat c in
      if 65 \<le> n \<and> n \<le> 90 then Some (n - 65)
      else if 97 \<le> n \<and> n \<le> 122 then Some (n - 71)
      else if 48 \<le> n \<and> n \<le> 57 then Some (n + 4)
      else if n = 43 \<or> n = 45 then Some 62
      else if n = 47 \<or> n = 95 then Some 63
      else None)"

fun b64_sextets :: "jsstring \<Rightarrow> nat list" where
  "b64_sextets [] = []"
| "b64_sextets (c # cs) =
     (if c = b64_pad then []
      else case b64_value c of
             Some v \<Rightarrow> v # b64_sextets cs
           | None \<Rightarrow> b64_sextets cs)"

fun b64_bytes :: "nat list \<Rightarrow> bytes" where
  "b64_bytes (p # q # r # t # rest) =
     (let n = p * 262144 + q * 4096 + r * 64 + t
      in [of_nat (n div 65536), of_nat (n div 256), of_nat n]) @ b64_bytes rest"
| "b64_bytes [p, q, r] =
     (let n = p * 262144 + q * 4096 + r * 64
      in [of_nat (n div 65536), of_nat (n div 256)])"
| "b64_bytes [p, q] = (let n = p * 262144 + q * 4096 in [of_nat (n div 65536)])"
| "b64_bytes [p] = []"
| "b64_bytes [] = []"

definition base64_decode :: "jsstring \<Rightarrow> bytes" where
  "base64_decode s = b64_bytes (b64_sextets s)"

section \<open>Process-wide configuration\<close>

text \<open>
  What the modules read once at load time: whether \<^verbatim>\<open>DEEPGRAM_API_KEY\<close>,
  \<^verbatim>\<open>ELEVENLABS_API_KEY\<close> and \<^verbatim>\<open>OPENAI_API_KEY\<close> are set (the module constants \<^verbatim>\<open>dg\<close>,
  \<^verbatim>\<open>elevenLabsKey\<close>, \<^verbatim>\<open>openai\<close>), \<^verbatim>\<open>BOT_VERTICAL\<close>, the greeting
  \<^verbatim>\<open>getVertical(v).greeting\<close> of each vertical, and the runtime's base64 decoder.
\<close>

record runtime =
  dg :: bool
  elevenLabsKey :: bool
  openai :: bool
  BOT_VERTICAL :: "jsstring option"
  greeting :: "jsstring \<Rightarrow> jsstring"
  from_base64 :: "jsstring \<Rightarrow> bytes"

definition SILENCE_TIMEOUT_MS :: nat where
  "SILENCE_TIMEOUT_MS = 4000"

definition MAX_TURN_DURATION_MS :: nat where
  "MAX_TURN_DURATION_MS = 30000"

definition CONVERT_TO_TWILIO :: bool where
  "CONVERT_TO_TWILIO = True"

definition fallback :: jsstring where
  "fallback = js ''Sorry, I had a small hiccup. Can you say that again?''"

section \<open>Text to speech\<close>

text \<open>
  The outcome of each external call one \<^verbatim>\<open>textToSpeech\<close> may make: \<open>None\<close> is a
  rejected promise, \<open>Some b\<close> the buffer it resolves to. A provider that is not
  called ignores its outcome.
\<close>

record tts_world =
  deepgram_out :: "bytes option"
  elevenLabs_out :: "bytes option"
  openai_out :: "bytes option"
  ffmpeg_out :: "bytes option"

definition openaiTts :: "runtime \<Rightarrow> tts_world \<Rightarrow> bytes option" where
  "openaiTts rt w = (if \<not> openai rt then Some [] else openai_out w)"

definition fallbackTts :: "runtime \<Rightarrow> tts_world \<Rightarrow> bytes option" where
  "fallbackTts rt w =
     (if elevenLabsKey rt
      then (case elevenLabs_out w of Some b \<Rightarrow> Some b | None \<Rightarrow> openaiTts rt w)
      else openaiTts rt w)"

definition deepgramTts :: "runtime \<Rightarrow> tts_world \<Rightarrow> bytes option" where
  "deepgramTts rt w = (if \<not> dg rt then Some [] else deepgram_out w)"

definition getRawTts :: "runtime \<Rightarrow> tts_world \<Rightarrow> bytes option" where
  "getRawTts rt w =
     (if dg rt
      then (case deepgramTts rt w of Some b \<Rightarrow> Some b | None \<Rightarrow> fallbackTts rt w)
      else fallbackTts rt w)"

text \<open>
  \<^verbatim>\<open>toMulaw8k(raw).catch(() => null)\<close> followed by \<^verbatim>\<open>if (mulaw) return mulaw\<close>: a
  buffer is an object, hence truthy also when it is empty.
\<close>

definition textToSpeech :: "runtime \<Rightarrow> tts_world \<Rightarrow> bytes option" where
  "textToSpeech rt w =
     (case getRawTts rt w of
        None \<Rightarrow> None
      | Some raw \<Rightarrow>
          if raw = [] then Some raw
          else if CONVERT_TO_TWILIO
               then (case ffmpeg_out w of Some mulaw \<Rightarrow> Some mulaw | None \<Rightarrow> Some raw)
               else Some raw)"

section \<open>The session\<close>

datatype role = User | Assistant

type_synonym message = "role \<times> jsstring"

record StreamContext =
  callSid :: jsstring
  streamSid :: "jsstring option"
  vertical :: jsstring
  messages :: "message list"
  lastActivityAt :: nat
  isSpeaking :: bool
  streamStart :: nat

text \<open>
  The closure of one \<^verbatim>\<open>createSttStream\<close> call (\<^verbatim>\<open>connection\<close>, \<^verbatim>\<open>closed\<close>) and the live
  connection objects of the transcription SDK. A connection remembers the closure
  whose \<^verbatim>\<open>start\<close> created it, since its listeners are that closure's, and how many
  \<^verbatim>\<open>Transcript\<close> listeners have been registered on it.
\<close>

record SttStream =
  connection :: "nat option"
  closed :: bool

record LiveConnection =
  owner :: nat
  transcript_listeners :: nat

datatype timer_callback = SilenceCallback | TurnCallback

text \<open>A pending timer: its handle, the time at which it is due, its callback.\<close>

type_synonym timer = "nat \<times> nat \<times> timer_callback"

text \<open>
  An asynchronous function suspended at an \<^verbatim>\<open>await\<close>: the greeting dispatch awaiting
  \<^verbatim>\<open>textToSpeech\<close>, or \<^verbatim>\<open>processUserInput\<close> with its local \<^verbatim>\<open>timeout\<close> handle,
  awaiting \<^verbatim>\<open>runBrain\<close>, \<^verbatim>\<open>textToSpeech(reply)\<close> or \<^verbatim>\<open>textToSpeech(fallback)\<close>.
\<close>

datatype stage = AwaitBrain | AwaitTts | AwaitFallbackTts

datatype task = GreetingTask | PipelineTask stage nat

datatype ready_state = CONNECTING | OPEN | CLOSING | CLOSED

record media_envelope =
  out_event :: jsstring
  out_streamSid :: jsstring
  out_payload :: jsstring

text \<open>What the session does to the outside, in order.\<close>

datatype effect =
    ListenLive nat
  | ConnSend nat bytes
  | ConnFinish nat
  | WsSend media_envelope
  | RunBrain nat jsstring "message list"
  | TtsCall nat jsstring
  | Console jsstring
  | UnhandledRejection nat

record session =
  ctx :: StreamContext
  sttStream :: "nat option"
  silenceTimer :: "nat option"
  turnTimeout :: "nat option"
  streams :: "nat \<Rightarrow> SttStream"
  next_stream :: nat
  conns :: "nat \<Rightarrow> LiveConnection"
  next_conn :: nat
  timers :: "timer list"
  next_timer :: nat
  tasks :: "nat \<rightharpoonup> task"
  next_task :: nat
  readyState :: ready_state
  now :: nat
  trace :: "effect list"

definition emit :: "effect \<Rightarrow> session \<Rightarrow> session" where
  "emit e s = s\<lparr>trace := trace s @ [e]\<rparr>"

subsection \<open>Timers\<close>

definition setTimeout :: "timer_callback \<Rightarrow> nat \<Rightarrow> session \<Rightarrow> session" where
  "setTimeout cb ms s =
     s\<lparr>timers := timers s @ [(next_timer s, now s + ms, cb)], next_timer := Suc (next_timer s)\<rparr>"

definition clearTimeout :: "nat \<Rightarrow> session \<Rightarrow> session" where
  "clearTimeout h s = s\<lparr>timers := filter (\<lambda>t. fst t \<noteq> h) (timers s)\<rparr>"

definition resetSilenceTimer :: "session \<Rightarrow> session" where
  "resetSilenceTimer s =
     (let s1 = (case silenceTimer s of Some h \<Rightarrow> clearTimeout h s | None \<Rightarrow> s);
          s2 = s1\<lparr>ctx := (ctx s1)\<lparr>lastActivityAt := now s1\<rparr>\<rparr>;
          h = next_timer s2
      in (setTimeout SilenceCallback SILENCE_TIMEOUT_MS s2)\<lparr>silenceTimer := Some h\<rparr>)"

definition clearTurnTimeout :: "session \<Rightarrow> session" where
  "clearTurnTimeout s =
     (case turnTimeout s of
        Some h \<Rightarrow> (clearTimeout h s)\<lparr>turnTimeout := None\<rparr>
      | None \<Rightarrow> s)"

definition run_callback :: "timer_callback \<Rightarrow> session \<Rightarrow> session" where
  "run_callback cb s =
     (case cb of
        SilenceCallback \<Rightarrow> (if isSpeaking (ctx s) then s else s)
      | TurnCallback \<Rightarrow> s\<lparr>ctx := (ctx s)\<lparr>isSpeaking := False\<rparr>\<rparr>)"

text \<open>
  Time passes by \<open>d\<close> milliseconds: every pending timer that is due by then runs, in
  the order of the due times, and is no longer pending.
\<close>

definition is_due :: "nat \<Rightarrow> timer \<Rightarrow> bool" where
  "is_due t tm = (fst (snd tm) \<le> t)"

definition tick :: "nat \<Rightarrow> session \<Rightarrow> session" where
  "tick d s =
     (let t = now s + d;
          due = sort_key (\<lambda>tm. fst (snd tm)) (filter (is_due t) (timers s));
          s1 = s\<lparr>now := t, timers := filter (\<lambda>tm. \<not> is_due t tm) (timers s)\<rparr>
      in fold (\<lambda>tm. run_callback (snd (snd tm))) due s1)"

subsection \<open>The transcription bridge\<close>

definition createSttStream :: "session \<Rightarrow> session" where
  "createSttStream s =
     s\<lparr>streams := (streams s)(next_stream s := \<lparr>connection = None, closed = False\<rparr>),
       next_stream := Suc (next_stream s)\<rparr>"

definition stt_start :: "runtime \<Rightarrow> nat \<Rightarrow> session \<Rightarrow> session" where
  "stt_start rt b s =
     (if \<not> dg rt then emit (Console (js ''[STT] DEEPGRAM_API_KEY not set; STT disabled'')) s
      else if connection (streams s b) \<noteq> None then s
      else let c = next_conn s
           in emit (ListenLive c)
                (s\<lparr>streams := (streams s)(b := \<lparr>connection = Some c, closed = False\<rparr>),
                   conns := (conns s)(c := \<lparr>owner = b, transcript_listeners = 0\<rparr>),
                   next_conn := Suc c\<rparr>))"

text \<open>
  \<^verbatim>\<open>write\<close>: an exception of \<^verbatim>\<open>connection.send\<close> is caught and logged there and changes
  nothing else; the model records the call.
\<close>

definition stt_write :: "nat \<Rightarrow> bytes \<Rightarrow> session \<Rightarrow> session" where
  "stt_write b chunk s =
     (case connection (streams s b) of
        Some c \<Rightarrow> if \<not> closed (streams s b) \<and> chunk \<noteq> [] then emit (ConnSend c chunk) s else s
      | None \<Rightarrow> s)"

definition stt_stop :: "nat \<Rightarrow> session \<Rightarrow> session" where
  "stt_stop b s =
     (let s1 = (case connection (streams s b) of
                  Some c \<Rightarrow> emit (ConnFinish c) s
                | None \<Rightarrow> s)
      in s1\<lparr>streams := (streams s1)(b := \<lparr>connection = None, closed = True\<rparr>)\<rparr>)"

subsection \<open>The output sender\<close>

text \<open>
  The guarded \<^verbatim>\<open>ws.send\<close> that the greeting dispatch and both branches of
  \<^verbatim>\<open>processUserInput\<close> repeat:
  \<^verbatim>\<open>if (audio && ws.readyState === WebSocket.OPEN && ctx.streamSid) ws.send(...)\<close>.
  \<open>None\<close> is the \<^verbatim>\<open>null\<close> that \<^verbatim>\<open>.catch(() => null)\<close> gives; a buffer is truthy.
\<close>

definition ws_send_media :: "bytes option \<Rightarrow> session \<Rightarrow> session" where
  "ws_send_media audio s =
     (case audio of
        None \<Rightarrow> s
      | Some a \<Rightarrow>
          (case streamSid (ctx s) of
             None \<Rightarrow> s
           | Some sid \<Rightarrow>
               if readyState s = OPEN \<and> sid \<noteq> []
               then emit (WsSend \<lparr>out_event = js ''media'', out_streamSid = sid,
                                  out_payload = base64_encode a\<rparr>) s
               else s))"

subsection \<open>The response pipeline\<close>

text \<open>\<^verbatim>\<open>processUserInput\<close> up to its first \<^verbatim>\<open>await\<close>.\<close>

definition processUserInput :: "jsstring \<Rightarrow> session \<Rightarrow> session" where
  "processUserInput text s =
     (let s1 = s\<lparr>ctx := (ctx s)\<lparr>messages := messages (ctx s) @ [(User, text)],
                                 isSpeaking := True\<rparr>\<rparr>;
          timeout = next_timer s1;
          s2 = setTimeout TurnCallback MAX_TURN_DURATION_MS s1;
          t = next_task s2
      in (emit (RunBrain t (vertical (ctx s2)) (messages (ctx s2))) s2)
           \<lparr>tasks := (tasks s2)(t \<mapsto> PipelineTask AwaitBrain timeout), next_task := Suc t\<rparr>)"

definition processUserInput_finally :: "nat \<Rightarrow> nat \<Rightarrow> session \<Rightarrow> session" where
  "processUserInput_finally t timeout s =
     (let s1 = clearTimeout timeout s
      in s1\<lparr>ctx := (ctx s1)\<lparr>isSpeaking := False\<rparr>, tasks := (tasks s1)(t := None)\<rparr>)"

text \<open>\<^verbatim>\<open>runBrain\<close> has resolved to \<open>reply\<close>.\<close>

definition processUserInput_reply :: "nat \<Rightarrow> nat \<Rightarrow> jsstring \<Rightarrow> session \<Rightarrow> session" where
  "processUserInput_reply t timeout reply s =
     (let s1 = s\<lparr>ctx := (ctx s)\<lparr>messages := messages (ctx s) @ [(Assistant, reply)]\<rparr>\<rparr>
      in (emit (TtsCall t reply) s1)\<lparr>tasks := (tasks s1)(t \<mapsto> PipelineTask AwaitTts timeout)\<rparr>)"

text \<open>\<^verbatim>\<open>textToSpeech(reply)\<close> has resolved to \<open>audio\<close>.\<close>

definition processUserInput_audio :: "nat \<Rightarrow> nat \<Rightarrow> bytes \<Rightarrow> session \<Rightarrow> session" where
  "processUserInput_audio t timeout audio s =
     processUserInput_finally t timeout (ws_send_media (Some audio) s)"

text \<open>The \<^verbatim>\<open>catch\<close> block up to its \<^verbatim>\<open>await\<close>, and after it.\<close>

definition processUserInput_catch :: "nat \<Rightarrow> nat \<Rightarrow> session \<Rightarrow> session" where
  "processUserInput_catch t timeout s =
     (let s1 = emit (Console (js ''[stream] runBrain error'')) s
      in (emit (TtsCall t fallback) s1)
           \<lparr>tasks := (tasks s1)(t \<mapsto> PipelineTask AwaitFallbackTts timeout)\<rparr>)"

definition processUserInput_fallback_audio ::
  "nat \<Rightarrow> nat \<Rightarrow> bytes option \<Rightarrow> session \<Rightarrow> session" where
  "processUserInput_fallback_audio t timeout audio s =
     processUserInput_finally t timeout (ws_send_media audio s)"

subsection \<open>The handlers of \<^verbatim>\<open>handleStream\<close>\<close>

definition onTranscript :: "jsstring \<Rightarrow> bool \<Rightarrow> session \<Rightarrow> session" where
  "onTranscript text isFinal s =
     (if trim text = [] \<or> \<not> isFinal then s
      else let s1 = s\<lparr>ctx := (ctx s)\<lparr>lastActivityAt := now s\<rparr>\<rparr>;
               s2 = clearTurnTimeout s1
           in processUserInput text s2)"

text \<open>
  A parsed inbound message. \<open>msg_event\<close> is \<^verbatim>\<open>msg.event\<close> (a message without one
  compares unequal to every event name, as the empty string does), \<open>media_payload\<close>
  is \<^verbatim>\<open>msg.media?.payload\<close>, \<open>start_streamSid\<close> is \<^verbatim>\<open>msg.start?.streamSid\<close> and
  \<open>start_vertical\<close> is \<^verbatim>\<open>msg.start?.customParameters?.vertical\<close>. \<open>BadJson\<close> is a
  text on which \<^verbatim>\<open>JSON.parse\<close> throws.
\<close>

record inbound =
  msg_event :: jsstring
  msg_streamSid :: "jsstring option"
  media_payload :: "jsstring option"
  start_streamSid :: "jsstring option"
  start_vertical :: "jsstring option"

datatype ws_data = BadJson | Json inbound

definition on_media :: "runtime \<Rightarrow> jsstring \<Rightarrow> session \<Rightarrow> session" where
  "on_media rt payload s =
     (case sttStream s of
        Some b \<Rightarrow> resetSilenceTimer (stt_write b (from_base64 rt payload) s)
      | None \<Rightarrow>
          (let b = next_stream s;
               s1 = stt_start rt b ((createSttStream s)\<lparr>sttStream := Some b\<rparr>)
           in resetSilenceTimer (stt_write b (from_base64 rt payload) s1)))"

definition on_start :: "runtime \<Rightarrow> inbound \<Rightarrow> session \<Rightarrow> session" where
  "on_start rt msg s =
     (let sid = (case msg_streamSid msg of Some x \<Rightarrow> Some x | None \<Rightarrow> start_streamSid msg);
          s1 = (case sid of
                  Some x \<Rightarrow> if x \<noteq> [] then s\<lparr>ctx := (ctx s)\<lparr>streamSid := Some x\<rparr>\<rparr> else s
                | None \<Rightarrow> s);
          s2 = (case start_vertical msg of
                  Some v \<Rightarrow> if v \<noteq> [] then s1\<lparr>ctx := (ctx s1)\<lparr>vertical := v\<rparr>\<rparr> else s1
                | None \<Rightarrow> s1);
          text = greeting rt (vertical (ctx s2));
          s3 = resetSilenceTimer s2;
          s4 = s3\<lparr>ctx := (ctx s3)\<lparr>isSpeaking := True\<rparr>\<rparr>;
          t = next_task s4
      in (emit (TtsCall t text) s4)\<lparr>tasks := (tasks s4)(t \<mapsto> GreetingTask), next_task := Suc t\<rparr>)"

text \<open>
  The greeting dispatch after its \<^verbatim>\<open>await\<close>: its promise has no \<^verbatim>\<open>catch\<close>, so a
  rejected \<^verbatim>\<open>textToSpeech\<close> leaves an unhandled rejection behind the \<^verbatim>\<open>finally\<close>.
\<close>

definition greeting_audio :: "nat \<Rightarrow> bytes option \<Rightarrow> session \<Rightarrow> session" where
  "greeting_audio t r s =
     (let s1 = (case r of
                  Some audio \<Rightarrow> ws_send_media (Some audio) s
                | None \<Rightarrow> emit (UnhandledRejection t) s)
      in s1\<lparr>ctx := (ctx s1)\<lparr>isSpeaking := False\<rparr>, tasks := (tasks s1)(t := None)\<rparr>)"

definition on_stop :: "session \<Rightarrow> session" where
  "on_stop s =
     (case sttStream s of Some b \<Rightarrow> stt_stop b s | None \<Rightarrow> s)\<lparr>sttStream := None\<rparr>"

definition on_message :: "runtime \<Rightarrow> ws_data \<Rightarrow> session \<Rightarrow> session" where
  "on_message rt d s =
     (case d of
        BadJson \<Rightarrow> emit (Console (js ''[stream] message error'')) s
      | Json msg \<Rightarrow>
          (let s1 = (case media_payload msg of
                       Some p \<Rightarrow> if msg_event msg = js ''media'' \<and> p \<noteq> []
                                 then on_media rt p s else s
                     | None \<Rightarrow> s);
               s2 = (if msg_event msg = js ''start'' then on_start rt msg s1 else s1)
           in if msg_event msg = js ''stop'' then on_stop s2 else s2))"

definition on_close :: "session \<Rightarrow> session" where
  "on_close s =
     (let s1 = (case silenceTimer s of Some h \<Rightarrow> clearTimeout h s | None \<Rightarrow> s);
          s2 = clearTurnTimeout s1
      in case sttStream s2 of Some b \<Rightarrow> stt_stop b s2 | None \<Rightarrow> s2)"

subsection \<open>The listeners \<^verbatim>\<open>start\<close> registers on a connection\<close>

record TranscriptData =
  transcript :: "jsstring option"
  speech_final :: "bool option"
  is_final :: "bool option"

text \<open>
  \<^verbatim>\<open>data?.channel?.alternatives?.[0]?.transcript ?? ''\<close> and
  \<^verbatim>\<open>data?.speech_final ?? data?.is_final ?? true\<close>.
\<close>

definition transcript_text :: "TranscriptData \<Rightarrow> jsstring" where
  "transcript_text data = (case transcript data of Some x \<Rightarrow> x | None \<Rightarrow> [])"

definition transcript_isFinal :: "TranscriptData \<Rightarrow> bool" where
  "transcript_isFinal data =
     (case speech_final data of
        Some f \<Rightarrow> f
      | None \<Rightarrow> (case is_final data of Some f \<Rightarrow> f | None \<Rightarrow> True))"

definition transcript_listener :: "TranscriptData \<Rightarrow> session \<Rightarrow> session" where
  "transcript_listener data s =
     (if transcript_text data \<noteq> []
      then onTranscript (trim (transcript_text data)) (transcript_isFinal data) s
      else s)"

definition conn_open :: "nat \<Rightarrow> session \<Rightarrow> session" where
  "conn_open c s =
     (case connection (streams s (owner (conns s c))) of
        Some c' \<Rightarrow>
          s\<lparr>conns := (conns s)
               (c' := (conns s c')\<lparr>transcript_listeners := Suc (transcript_listeners (conns s c'))\<rparr>)\<rparr>
      | None \<Rightarrow> s)"

definition conn_transcript :: "nat \<Rightarrow> TranscriptData \<Rightarrow> session \<Rightarrow> session" where
  "conn_transcript c data s =
     (transcript_listener data ^^ transcript_listeners (conns s c)) s"

definition conn_close :: "nat \<Rightarrow> session \<Rightarrow> session" where
  "conn_close c s =
     (let b = owner (conns s c)
      in s\<lparr>streams := (streams s)(b := (streams s b)\<lparr>connection := None\<rparr>)\<rparr>)"

definition conn_error :: "nat \<Rightarrow> session \<Rightarrow> session" where
  "conn_error c s =
     (let b = owner (conns s c);
          s1 = (if \<not> closed (streams s b)
                then emit (Console (js ''[STT] Deepgram connection error (client may have disconnected):'')) s
                else s)
      in s1\<lparr>streams := (streams s1)(b := (streams s1 b)\<lparr>connection := None\<rparr>)\<rparr>)"

section \<open>The event loop\<close>

text \<open>
  What can happen to a session: a message, the closing and the close of the
  channel, the events of a live connection, the settling of a pending
  \<^verbatim>\<open>runBrain\<close> or \<^verbatim>\<open>textToSpeech\<close> promise (\<open>None\<close>: rejected), and the passing of
  time. An event for a connection that was never opened, or for a promise nobody
  awaits, cannot happen and changes nothing.
\<close>

datatype event =
    WsMessage ws_data
  | WsClosing
  | WsClose
  | ConnOpen nat
  | ConnTranscript nat TranscriptData
  | ConnClose nat
  | ConnError nat
  | BrainSettled nat "jsstring option"
  | TtsSettled nat tts_world
  | Tick nat

fun step :: "runtime \<Rightarrow> session \<Rightarrow> event \<Rightarrow> session" where
  "step rt s (WsMessage d) = on_message rt d s"
| "step rt s WsClosing = (if readyState s = OPEN then s\<lparr>readyState := CLOSING\<rparr> else s)"
| "step rt s WsClose = on_close (s\<lparr>readyState := CLOSED\<rparr>)"
| "step rt s (ConnOpen c) = (if c < next_conn s then conn_open c s else s)"
| "step rt s (ConnTranscript c data) = (if c < next_conn s then conn_transcript c data s else s)"
| "step rt s (ConnClose c) = (if c < next_conn s then conn_close c s else s)"
| "step rt s (ConnError c) = (if c < next_conn s then conn_error c s else s)"
| "step rt s (BrainSettled t r) =
     (case tasks s t of
        Some (PipelineTask AwaitBrain timeout) \<Rightarrow>
          (case r of
             Some reply \<Rightarrow> processUserInput_reply t timeout reply s
           | None \<Rightarrow> processUserInput_catch t timeout s)
      | _ \<Rightarrow> s)"
| "step rt s (TtsSettled t w) =
     (case tasks s t of
        Some GreetingTask \<Rightarrow> greeting_audio t (textToSpeech rt w) s
      | Some (PipelineTask AwaitTts timeout) \<Rightarrow>
          (case textToSpeech rt w of
             Some audio \<Rightarrow> processUserInput_audio t timeout audio s
           | None \<Rightarrow> processUserInput_catch t timeout s)
      | Some (PipelineTask AwaitFallbackTts timeout) \<Rightarrow>
          processUserInput_fallback_audio t timeout (textToSpeech rt w) s
      | _ \<Rightarrow> s)"
| "step rt s (Tick d) = tick d s"

definition run :: "runtime \<Rightarrow> session \<Rightarrow> event list \<Rightarrow> session" where
  "run rt s es = foldl (step rt) s es"

text \<open>
  \<^verbatim>\<open>handleStream(ws, params)\<close> at time \<open>t0\<close>, on the open channel the server hands it:
  \<open>CallSid\<close> and \<open>vertical_param\<close> are \<^verbatim>\<open>params.CallSid\<close> and \<^verbatim>\<open>params.vertical\<close>.
\<close>

definition handleStream :: "runtime \<Rightarrow> jsstring option \<Rightarrow> jsstring option \<Rightarrow> nat \<Rightarrow> session" where
  "handleStream rt CallSid vertical_param t0 =
     \<lparr>ctx = \<lparr>callSid = (case CallSid of Some c \<Rightarrow> c | None \<Rightarrow> js ''unknown''),
             streamSid = None,
             vertical = (case vertical_param of
                           Some v \<Rightarrow> v
                         | None \<Rightarrow> (case BOT_VERTICAL rt of Some v \<Rightarrow> v | None \<Rightarrow> js ''sales'')),
             messages = [],
             lastActivityAt = t0,
             isSpeaking = False,
             streamStart = t0\<rparr>,
      sttStream = None,
      silenceTimer = None,
      turnTimeout = None,
      streams = (\<lambda>_. \<lparr>connection = None, closed = False\<rparr>),
      next_stream = 0,
      conns = (\<lambda>_. \<lparr>owner = 0, transcript_listeners = 0\<rparr>),
      next_conn = 0,
      timers = [],
      next_timer = 0,
      tasks = Map.empty,
      next_task = 0,
      readyState = OPEN,
      now = t0,
      trace = []\<rparr>"

section \<open>A concrete deployment and concrete events\<close>

text \<open>
  \<^verbatim>\<open>getVertical(v).greeting\<close> for an identifier already in lower case, with no custom
  verticals file: the built-in table, \<^verbatim>\<open>sales\<close> for every other identifier.
\<close>

definition builtin_greeting :: "jsstring \<Rightarrow> jsstring" where
  "builtin_greeting v =
     (if v = js ''support'' then js ''Thanks for calling. I'm here to help. What can I assist you with?''
      else if v = js ''banking'' then js ''Welcome to banking support. How can I help you today?''
      else if v = js ''healthcare'' then js ''Thank you for calling. How may I help you today?''
      else if v = js ''hr'' then js ''Hello, you've reached HR. How can I help you today?''
      else if v = js ''hospitality'' then js ''Thank you for calling. How may I help you today?''
      else js ''Hi, thanks for calling. I'm here to help you learn more about what we offer. What brought you to us today?'')"

text \<open>Only \<^verbatim>\<open>DEEPGRAM_API_KEY\<close> is set.\<close>

definition deepgram_only :: runtime where
  "deepgram_only =
     \<lparr>dg = True, elevenLabsKey = False, openai = False, BOT_VERTICAL = None,
      greeting = builtin_greeting, from_base64 = base64_decode\<rparr>"

text \<open>No key is set at all.\<close>

definition no_keys :: runtime where
  "no_keys =
     \<lparr>dg = False, elevenLabsKey = False, openai = False, BOT_VERTICAL = None,
      greeting = builtin_greeting, from_base64 = base64_decode\<rparr>"

text \<open>Every key is set.\<close>

definition all_keys :: runtime where
  "all_keys =
     \<lparr>dg = True, elevenLabsKey = True, openai = True, BOT_VERTICAL = None,
      greeting = builtin_greeting, from_base64 = base64_decode\<rparr>"

definition media_msg :: "jsstring \<Rightarrow> event" where
  "media_msg p =
     WsMessage (Json \<lparr>msg_event = js ''media'', msg_streamSid = None, media_payload = Some p,
                      start_streamSid = None, start_vertical = None\<rparr>)"

definition start_msg :: "jsstring \<Rightarrow> event" where
  "start_msg sid =
     WsMessage (Json \<lparr>msg_event = js ''start'', msg_streamSid = Some sid, media_payload = None,
                      start_streamSid = Some sid, start_vertical = None\<rparr>)"

definition stop_msg :: event where
  "stop_msg =
     WsMessage (Json \<lparr>msg_event = js ''stop'', msg_streamSid = None, media_payload = None,
                      start_streamSid = None, start_vertical = None\<rparr>)"

definition final_transcript :: "jsstring \<Rightarrow> TranscriptData" where
  "final_transcript text = \<lparr>transcript = Some text, speech_final = Some True, is_final = Some True\<rparr>"

definition interim_transcript :: "jsstring \<Rightarrow> TranscriptData" where
  "interim_transcript text = \<lparr>transcript = Some text, speech_final = Some False, is_final = Some False\<rparr>"

definition tts_fails :: tts_world where
  "tts_fails = \<lparr>deepgram_out = None, elevenLabs_out = None, openai_out = None, ffmpeg_out = None\<rparr>"

definition tts_gives :: "bytes \<Rightarrow> tts_world" where
  "tts_gives b = \<lparr>deepgram_out = Some b, elevenLabs_out = Some b, openai_out = Some b, ffmpeg_out = Some b\<rparr>"

text \<open>A call that has just been accepted, at time 0.\<close>

definition call0 :: "runtime \<Rightarrow> session" where
  "call0 rt = handleStream rt (Some (js ''CA1'')) None 0"

section \<open>Notions the properties are stated with\<close>

text \<open>
  What the output sender writes for \<open>audio\<close> in session \<open>s\<close>; whether \<^verbatim>\<open>start\<close> on bridge
  \<open>b\<close> opens a connection; whether a turn timer is due at time \<open>t\<close>.
\<close>

definition media_frames :: "bytes option \<Rightarrow> session \<Rightarrow> effect list" where
  "media_frames audio s =
     (case audio of
        None \<Rightarrow> []
      | Some a \<Rightarrow>
          (case streamSid (ctx s) of
             None \<Rightarrow> []
           | Some sid \<Rightarrow>
               if readyState s = OPEN \<and> sid \<noteq> []
               then [WsSend \<lparr>out_event = js ''media'', out_streamSid = sid,
                              out_payload = base64_encode a\<rparr>]
               else []))"

definition started :: "runtime \<Rightarrow> nat \<Rightarrow> session \<Rightarrow> bool" where
  "started rt b s = (dg rt \<and> connection (streams s b) = None)"

definition turn_due :: "nat \<Rightarrow> session \<Rightarrow> bool" where
  "turn_due t s = (\<exists>tm\<in>set (timers s). is_due t tm \<and> snd (snd tm) = TurnCallback)"

text \<open>
  What holds of every session the event loop reaches: \<^verbatim>\<open>turnTimeout\<close> is never
  assigned, \<^verbatim>\<open>ctx.streamSid\<close> is never the empty string, and the timer handles and
  task numbers in use are older than the next ones.
\<close>

definition session_inv :: "session \<Rightarrow> bool" where
  "session_inv s =
     (turnTimeout s = None \<and> streamSid (ctx s) \<noteq> Some [] \<and>
      (\<forall>h. silenceTimer s = Some h \<longrightarrow> h < next_timer s) \<and>
      (\<forall>t st h. tasks s t = Some (PipelineTask st h) \<longrightarrow> h < next_timer s) \<and>
      (\<forall>t. next_task s \<le> t \<longrightarrow> tasks s t = None))"

text \<open>
  The turn timer \<open>h\<close>, due at \<open>D\<close>, of the pipeline \<open>t\<close> that awaits \<^verbatim>\<open>runBrain\<close>: nobody
  else holds the handle, and the timer is pending as long as \<open>D\<close> has not come. An
  event settles \<open>t\<close> when it is the outcome of that \<^verbatim>\<open>runBrain\<close> call.
\<close>

fun settles :: "nat \<Rightarrow> event \<Rightarrow> bool" where
  "settles t (BrainSettled t' r) = (t' = t)"
| "settles t _ = False"

definition armed :: "nat \<Rightarrow> nat \<Rightarrow> nat \<Rightarrow> session \<Rightarrow> bool" where
  "armed t h D s =
     (tasks s t = Some (PipelineTask AwaitBrain h) \<and> h < next_timer s \<and> t < next_task s \<and>
      silenceTimer s \<noteq> Some h \<and> turnTimeout s \<noteq> Some h \<and>
      (\<forall>t' st. t' \<noteq> t \<longrightarrow> tasks s t' \<noteq> Some (PipelineTask st h)) \<and>
      (now s < D \<longrightarrow> (h, D, TurnCallback) \<in> set (timers s)))"

text \<open>
  The effects that reach the speech-to-text provider with audio: opening a
  connection and writing a frame. A session is detached from the provider when it
  holds a bridge that has no connection.
\<close>

fun is_stop :: "event \<Rightarrow> bool" where
  "is_stop (WsMessage (Json m)) = (msg_event m = js ''stop'')"
| "is_stop _ = False"

fun is_forward :: "effect \<Rightarrow> bool" where
  "is_forward (ListenLive c) = True"
| "is_forward (ConnSend c chunk) = True"
| "is_forward _ = False"

definition forwarded :: "effect list \<Rightarrow> effect list" where
  "forwarded tr = filter is_forward tr"

definition detached :: "nat \<Rightarrow> effect list \<Rightarrow> session \<Rightarrow> bool" where
  "detached b fw s =
     (sttStream s = Some b \<and> connection (streams s b) = None \<and> forwarded (trace s) = fw)"

text \<open>Pipeline \<open>t\<close> has been started and no longer awaits \<^verbatim>\<open>runBrain\<close>.\<close>

definition brain_done :: "nat \<Rightarrow> session \<Rightarrow> bool" where
  "brain_done t s = (t < next_task s \<and> (\<forall>h. tasks s t \<noteq> Some (PipelineTask AwaitBrain h)))"

text \<open>
  Teardown: a \<^verbatim>\<open>stop\<close> message or the close of the channel, and what each of them
  leaves behind.
\<close>

definition is_teardown :: "event \<Rightarrow> bool" where
  "is_teardown e = (is_stop e \<or> e = WsClose)"

definition stop_done :: "session \<Rightarrow> bool" where
  "stop_done s = (sttStream s = None)"

definition close_done :: "session \<Rightarrow> bool" where
  "close_done s =
     (readyState s = CLOSED \<and> turnTimeout s = None \<and>
      (\<forall>h. silenceTimer s = Some h \<longrightarrow> h \<notin> fst ` set (timers s)) \<and>
      (\<forall>b. sttStream s = Some b \<longrightarrow> streams s b = \<lparr>connection = None, closed = True\<rparr>))"

section \<open>Each operation as one update of the session\<close>

lemma resetSilenceTimer_nf:
  "resetSilenceTimer s =
   s\<lparr>timers := (case silenceTimer s of Some h \<Rightarrow> filter (\<lambda>t. fst t \<noteq> h) (timers s) | None \<Rightarrow> timers s)
                 @ [(next_timer s, now s + SILENCE_TIMEOUT_MS, SilenceCallback)],
     next_timer := Suc (next_timer s),
     ctx := (ctx s)\<lparr>lastActivityAt := now s\<rparr>,
     silenceTimer := Some (next_timer s)\<rparr>"
  by (simp add: resetSilenceTimer_def clearTimeout_def setTimeout_def Let_def split: option.splits)

lemma clearTurnTimeout_nf:
  "clearTurnTimeout s =
   s\<lparr>timers := (case turnTimeout s of Some h \<Rightarrow> filter (\<lambda>t. fst t \<noteq> h) (timers s) | None \<Rightarrow> timers s),
     turnTimeout := None\<rparr>"
  by (simp add: clearTurnTimeout_def clearTimeout_def split: option.splits)

lemma stt_start_nf:
  "stt_start rt b s =
   s\<lparr>trace := trace s @
        (if \<not> dg rt then [Console (js ''[STT] DEEPGRAM_API_KEY not set; STT disabled'')]
         else if connection (streams s b) \<noteq> None then [] else [ListenLive (next_conn s)]),
     streams := (if started rt b s
                 then (streams s)(b := \<lparr>connection = Some (next_conn s), closed = False\<rparr>)
                 else streams s),
     conns := (if started rt b s
               then (conns s)(next_conn s := \<lparr>owner = b, transcript_listeners = 0\<rparr>)
               else conns s),
     next_conn := (if started rt b s then Suc (next_conn s) else next_conn s)\<rparr>"
  by (auto simp add: stt_start_def emit_def started_def Let_def)

lemma stt_write_nf:
  "stt_write b chunk s =
   s\<lparr>trace := trace s @
        (case connection (streams s b) of
           Some c \<Rightarrow> if \<not> closed (streams s b) \<and> chunk \<noteq> [] then [ConnSend c chunk] else []
         | None \<Rightarrow> [])\<rparr>"
  by (simp add: stt_write_def emit_def split: option.splits)

lemma stt_stop_nf:
  "stt_stop b s =
   s\<lparr>trace := trace s @ (case connection (streams s b) of Some c \<Rightarrow> [ConnFinish c] | None \<Rightarrow> []),
     streams := (streams s)(b := \<lparr>connection = None, closed = True\<rparr>)\<rparr>"
  by (simp add: stt_stop_def emit_def Let_def split: option.splits)

lemma ws_send_media_nf: "ws_send_media audio s = s\<lparr>trace := trace s @ media_frames audio s\<rparr>"
  by (simp add: ws_send_media_def media_frames_def emit_def split: option.splits)

lemma processUserInput_nf:
  "processUserInput text s =
   s\<lparr>ctx := (ctx s)\<lparr>messages := messages (ctx s) @ [(User, text)], isSpeaking := True\<rparr>,
     timers := timers s @ [(next_timer s, now s + MAX_TURN_DURATION_MS, TurnCallback)],
     next_timer := Suc (next_timer s),
     trace := trace s @ [RunBrain (next_task s) (vertical (ctx s)) (messages (ctx s) @ [(User, text)])],
     tasks := (tasks s)(next_task s \<mapsto> PipelineTask AwaitBrain (next_timer s)),
     next_task := Suc (next_task s)\<rparr>"
  by (simp add: processUserInput_def setTimeout_def emit_def Let_def)

lemma processUserInput_finally_nf:
  "processUserInput_finally t h s =
   s\<lparr>timers := filter (\<lambda>tm. fst tm \<noteq> h) (timers s),
     ctx := (ctx s)\<lparr>isSpeaking := False\<rparr>,
     tasks := (tasks s)(t := None)\<rparr>"
  by (simp add: processUserInput_finally_def clearTimeout_def Let_def)

lemma processUserInput_reply_nf:
  "processUserInput_reply t h reply s =
   s\<lparr>ctx := (ctx s)\<lparr>messages := messages (ctx s) @ [(Assistant, reply)]\<rparr>,
     trace := trace s @ [TtsCall t reply],
     tasks := (tasks s)(t \<mapsto> PipelineTask AwaitTts h)\<rparr>"
  by (simp add: processUserInput_reply_def emit_def Let_def)

lemma processUserInput_catch_nf:
  "processUserInput_catch t h s =
   s\<lparr>trace := trace s @ [Console (js ''[stream] runBrain error''), TtsCall t fallback],
     tasks := (tasks s)(t \<mapsto> PipelineTask AwaitFallbackTts h)\<rparr>"
  by (simp add: processUserInput_catch_def emit_def Let_def)

lemma processUserInput_fallback_audio_nf:
  "processUserInput_fallback_audio t h audio s =
   s\<lparr>trace := trace s @ media_frames audio s,
     timers := filter (\<lambda>tm. fst tm \<noteq> h) (timers s),
     ctx := (ctx s)\<lparr>isSpeaking := False\<rparr>,
     tasks := (tasks s)(t := None)\<rparr>"
  by (simp add: processUserInput_fallback_audio_def processUserInput_finally_nf ws_send_media_nf)

lemma processUserInput_audio_nf:
  "processUserInput_audio t h audio s =
   s\<lparr>trace := trace s @ media_frames (Some audio) s,
     timers := filter (\<lambda>tm. fst tm \<noteq> h) (timers s),
     ctx := (ctx s)\<lparr>isSpeaking := False\<rparr>,
     tasks := (tasks s)(t := None)\<rparr>"
  by (simp add: processUserInput_audio_def processUserInput_finally_nf ws_send_media_nf)

lemma greeting_audio_nf:
  "greeting_audio t r s =
   s\<lparr>trace := trace s @ (case r of Some audio \<Rightarrow> media_frames (Some audio) s | None \<Rightarrow> [UnhandledRejection t]),
     ctx := (ctx s)\<lparr>isSpeaking := False\<rparr>,
     tasks := (tasks s)(t := None)\<rparr>"
  by (simp add: greeting_audio_def ws_send_media_nf emit_def Let_def split: option.splits)

lemma onTranscript_nf:
  "onTranscript text isFinal s =
   (if trim text = [] \<or> \<not> isFinal then s
    else s\<lparr>ctx := (ctx s)\<lparr>lastActivityAt := now s,
                         messages := messages (ctx s) @ [(User, text)], isSpeaking := True\<rparr>,
           timers := (case turnTimeout s of Some h \<Rightarrow> filter (\<lambda>t. fst t \<noteq> h) (timers s) | None \<Rightarrow> timers s)
                      @ [(next_timer s, now s + MAX_TURN_DURATION_MS, TurnCallback)],
           turnTimeout := None,
           next_timer := Suc (next_timer s),
           trace := trace s @ [RunBrain (next_task s) (vertical (ctx s)) (messages (ctx s) @ [(User, text)])],
           tasks := (tasks s)(next_task s \<mapsto> PipelineTask AwaitBrain (next_timer s)),
           next_task := Suc (next_task s)\<rparr>)"
  by (simp add: onTranscript_def clearTurnTimeout_nf processUserInput_nf Let_def split: option.splits)

lemma run_callback_eq:
  "run_callback cb s = s\<lparr>ctx := (ctx s)\<lparr>isSpeaking := isSpeaking (ctx s) \<and> cb \<noteq> TurnCallback\<rparr>\<rparr>"
  by (cases cb) (simp_all add: run_callback_def)

lemma fold_run_callback:
  "fold (\<lambda>tm. run_callback (snd (snd tm))) l s =
   s\<lparr>ctx := (ctx s)\<lparr>isSpeaking := isSpeaking (ctx s) \<and> (\<forall>tm\<in>set l. snd (snd tm) \<noteq> TurnCallback)\<rparr>\<rparr>"
proof (induction l arbitrary: s)
  case Nil
  then show ?case by simp
next
  case (Cons tm l)
  have "fold (\<lambda>tm. run_callback (snd (snd tm))) (tm # l) s =
        fold (\<lambda>tm. run_callback (snd (snd tm))) l (run_callback (snd (snd tm)) s)"
    by simp
  also have "\<dots> = (run_callback (snd (snd tm)) s)\<lparr>ctx := (ctx (run_callback (snd (snd tm)) s))
      \<lparr>isSpeaking := isSpeaking (ctx (run_callback (snd (snd tm)) s)) \<and> (\<forall>tm\<in>set l. snd (snd tm) \<noteq> TurnCallback)\<rparr>\<rparr>"
    by (rule Cons)
  also have "\<dots> = s\<lparr>ctx := (ctx s)\<lparr>isSpeaking := isSpeaking (ctx s) \<and> (\<forall>tm\<in>set (tm # l). snd (snd tm) \<noteq> TurnCallback)\<rparr>\<rparr>"
    by (simp add: run_callback_eq conj_assoc)
  finally show ?case .
qed

lemma tick_nf:
  "tick d s =
   s\<lparr>now := now s + d,
     timers := filter (\<lambda>tm. \<not> is_due (now s + d) tm) (timers s),
     ctx := (ctx s)\<lparr>isSpeaking := isSpeaking (ctx s) \<and> \<not> turn_due (now s + d) s\<rparr>\<rparr>"
proof -
  have eq: "(\<forall>tm\<in>set (sort_key (\<lambda>tm. fst (snd tm)) (filter (is_due (now s + d)) (timers s))).
              snd (snd tm) \<noteq> TurnCallback) = (\<not> turn_due (now s + d) s)"
    by (auto simp: turn_due_def)
  show ?thesis
    unfolding tick_def Let_def fold_run_callback eq by simp
qed

lemmas nf = resetSilenceTimer_nf clearTurnTimeout_nf stt_start_nf stt_write_nf stt_stop_nf
  ws_send_media_nf processUserInput_nf processUserInput_finally_nf processUserInput_reply_nf
  processUserInput_catch_nf processUserInput_fallback_audio_nf processUserInput_audio_nf
  greeting_audio_nf onTranscript_nf tick_nf createSttStream_def emit_def

lemmas handler_defs = on_media_def on_start_def on_stop_def on_close_def
  conn_open_def conn_close_def conn_error_def clearTimeout_def Let_def

section \<open>The cases of a step\<close>

lemma js_inject: "js a = js b \<longleftrightarrow> a = b"
proof -
  have "inj (\<lambda>c::char. (of_nat (of_char c) :: 16 word))"
  proof (rule injI)
    fix x y :: char
    assume "(of_nat (of_char x) :: 16 word) = of_nat (of_char y)"
    then have "take_bit 16 (of_char x :: nat) = take_bit 16 (of_char y :: nat)"
      by (simp add: word_of_nat_eq_iff)
    moreover have "(of_char x :: nat) < 2 ^ 16" "(of_char y :: nat) < 2 ^ 16"
      by (rule less_trans[OF nat_of_char_less_256], simp)+
    ultimately show "x = y" by (simp add: take_bit_nat_eq_self)
  qed
  then show ?thesis by (simp add: js_def inj_map_eq_map)
qed

lemma on_message_Json:
  "on_message rt (Json m) s =
   (if msg_event m = js ''media''
    then (case media_payload m of Some p \<Rightarrow> if p \<noteq> [] then on_media rt p s else s | None \<Rightarrow> s)
    else if msg_event m = js ''start'' then on_start rt m s
    else if msg_event m = js ''stop'' then on_stop s
    else s)"
  by (simp add: on_message_def Let_def js_inject split: option.splits)

lemma step_cases [case_names BadJson Media Start Stop Closing Close ConnOpen Transcript
    ConnClose ConnError Reply BrainFail Greeting Audio TtsFail FallbackAudio Tick Nothing]:
  obtains
    "e = WsMessage BadJson" "step rt s e = emit (Console (js ''[stream] message error'')) s"
  | m p where "e = WsMessage (Json m)" "msg_event m = js ''media''" "media_payload m = Some p"
      "p \<noteq> []" "step rt s e = on_media rt p s"
  | m where "e = WsMessage (Json m)" "msg_event m = js ''start''" "step rt s e = on_start rt m s"
  | m where "e = WsMessage (Json m)" "msg_event m = js ''stop''" "step rt s e = on_stop s"
  | "e = WsClosing" "readyState s = OPEN" "step rt s e = s\<lparr>readyState := CLOSING\<rparr>"
  | "e = WsClose" "step rt s e = on_close (s\<lparr>readyState := CLOSED\<rparr>)"
  | c where "e = ConnOpen c" "c < next_conn s" "step rt s e = conn_open c s"
  | c data where "e = ConnTranscript c data" "c < next_conn s"
      "step rt s e = (transcript_listener data ^^ transcript_listeners (conns s c)) s"
  | c where "e = ConnClose c" "c < next_conn s" "step rt s e = conn_close c s"
  | c where "e = ConnError c" "c < next_conn s" "step rt s e = conn_error c s"
  | t h reply where "e = BrainSettled t (Some reply)" "tasks s t = Some (PipelineTask AwaitBrain h)"
      "step rt s e = processUserInput_reply t h reply s"
  | t h where "e = BrainSettled t None" "tasks s t = Some (PipelineTask AwaitBrain h)"
      "step rt s e = processUserInput_catch t h s"
  | t w where "e = TtsSettled t w" "tasks s t = Some GreetingTask"
      "step rt s e = greeting_audio t (textToSpeech rt w) s"
  | t h w audio where "e = TtsSettled t w" "tasks s t = Some (PipelineTask AwaitTts h)"
      "textToSpeech rt w = Some audio" "step rt s e = processUserInput_audio t h audio s"
  | t h w where "e = TtsSettled t w" "tasks s t = Some (PipelineTask AwaitTts h)"
      "textToSpeech rt w = None" "step rt s e = processUserInput_catch t h s"
  | t h w where "e = TtsSettled t w" "tasks s t = Some (PipelineTask AwaitFallbackTts h)"
      "step rt s e = processUserInput_fallback_audio t h (textToSpeech rt w) s"
  | d where "e = Tick d" "step rt s e = tick d s"
  | "step rt s e = s"
proof (cases e)
  case (WsMessage d)
  show ?thesis
  proof (cases d)
    case BadJson
    show ?thesis by (rule that(1)) (simp_all add: WsMessage BadJson on_message_def)
  next
    case (Json m)
    consider (media) p where "msg_event m = js ''media''" "media_payload m = Some p" "p \<noteq> []"
      | (dropped) "msg_event m = js ''media''" "media_payload m = None \<or> media_payload m = Some []"
      | (start) "msg_event m = js ''start''"
      | (stop) "msg_event m = js ''stop''"
      | (other) "msg_event m \<noteq> js ''media''" "msg_event m \<noteq> js ''start''"
          "msg_event m \<noteq> js ''stop''"
      by (cases "media_payload m") auto
    then show ?thesis
    proof cases
      case media
      show ?thesis
        by (rule that(2)[of m p]) (simp_all add: WsMessage Json media on_message_Json)
    next
      case dropped
      show ?thesis
        by (rule that(18)) (use dropped in \<open>auto simp: WsMessage Json on_message_Json\<close>)
    next
      case start
      show ?thesis
        by (rule that(3)[of m]) (simp_all add: WsMessage Json start on_message_Json js_inject)
    next
      case stop
      show ?thesis
        by (rule that(4)[of m]) (simp_all add: WsMessage Json stop on_message_Json js_inject)
    next
      case other
      show ?thesis
        by (rule that(18)) (simp add: WsMessage Json other on_message_Json)
    qed
  qed
next
  case WsClosing
  show ?thesis
  proof (cases "readyState s = OPEN")
    case True
    show ?thesis by (rule that(5)) (simp_all add: WsClosing True)
  next
    case False
    show ?thesis by (rule that(18)) (simp add: WsClosing False)
  qed
next
  case WsClose
  show ?thesis by (rule that(6)) (simp_all add: WsClose)
next
  case (ConnOpen c)
  show ?thesis
  proof (cases "c < next_conn s")
    case True
    show ?thesis by (rule that(7)[of c]) (simp_all add: ConnOpen True)
  next
    case False
    show ?thesis by (rule that(18)) (simp add: ConnOpen False)
  qed
next
  case (ConnTranscript c data)
  show ?thesis
  proof (cases "c < next_conn s")
    case True
    show ?thesis
      by (rule that(8)[of c data]) (simp_all add: ConnTranscript True conn_transcript_def)
  next
    case False
    show ?thesis by (rule that(18)) (simp add: ConnTranscript False)
  qed
next
  case (ConnClose c)
  show ?thesis
  proof (cases "c < next_conn s")
    case True
    show ?thesis by (rule that(9)[of c]) (simp_all add: ConnClose True)
  next
    case False
    show ?thesis by (rule that(18)) (simp add: ConnClose False)
  qed
next
  case (ConnError c)
  show ?thesis
  proof (cases "c < next_conn s")
    case True
    show ?thesis by (rule that(10)[of c]) (simp_all add: ConnError True)
  next
    case False
    show ?thesis by (rule that(18)) (simp add: ConnError False)
  qed
next
  case (BrainSettled t r)
  show ?thesis
  proof (cases "\<exists>h. tasks s t = Some (PipelineTask AwaitBrain h)")
    case True
    then obtain h where h: "tasks s t = Some (PipelineTask AwaitBrain h)" by blast
    show ?thesis
    proof (cases r)
      case None
      show ?thesis by (rule that(12)[of t h]) (simp_all add: BrainSettled None h)
    next
      case (Some reply)
      show ?thesis by (rule that(11)[of t reply h]) (simp_all add: BrainSettled Some h)
    qed
  next
    case False
    show ?thesis
      by (rule that(18)) (use False in \<open>simp add: BrainSettled split: option.splits task.splits stage.splits\<close>)
  qed
next
  case (TtsSettled t w)
  show ?thesis
  proof (cases "tasks s t")
    case None
    show ?thesis by (rule that(18)) (simp add: TtsSettled None)
  next
    case (Some k)
    show ?thesis
    proof (cases k)
      case GreetingTask
      show ?thesis by (rule that(13)[of t w]) (simp_all add: TtsSettled Some GreetingTask)
    next
      case (PipelineTask st h)
      show ?thesis
      proof (cases st)
        case AwaitBrain
        show ?thesis by (rule that(18)) (simp add: TtsSettled Some PipelineTask AwaitBrain)
      next
        case AwaitTts
        show ?thesis
        proof (cases "textToSpeech rt w")
          case None
          show ?thesis
            by (rule that(15)[of t w h])
              (simp_all add: TtsSettled \<open>tasks s t = Some k\<close> PipelineTask AwaitTts None)
        next
          case (Some audio)
          show ?thesis
            by (rule that(14)[of t w h audio])
              (simp_all add: TtsSettled \<open>tasks s t = Some k\<close> PipelineTask AwaitTts Some)
        qed
      next
        case AwaitFallbackTts
        show ?thesis
          by (rule that(16)[of t w h]) (simp_all add: TtsSettled Some PipelineTask AwaitFallbackTts)
      qed
    qed
  qed
next
  case (Tick d)
  show ?thesis by (rule that(17)[of d]) (simp_all add: Tick)
qed

lemma funpow_invariant: "(\<And>s. P s \<Longrightarrow> P (f s)) \<Longrightarrow> P s \<Longrightarrow> P ((f ^^ n) s)"
  by (induction n) simp_all

lemma run_snoc: "run rt s (es @ [e]) = step rt (run rt s es) e"
  by (simp add: run_def)

lemma step_stop: "is_stop e \<Longrightarrow> step rt s e = on_stop s"
proof (cases rule: is_stop.cases[of e])
  case (1 m)
  assume "is_stop e"
  with 1 show ?thesis by (simp add: on_message_Json js_inject)
qed auto

lemma step_media: "p \<noteq> [] \<Longrightarrow> step rt s (media_msg p) = on_media rt p s"
  by (simp add: media_msg_def on_message_Json)

lemma step_stop_msg: "step rt s stop_msg = on_stop s"
  by (simp add: stop_msg_def on_message_Json js_inject)

section \<open>Invariants of the event loop\<close>

lemma session_inv_listener: "session_inv s \<Longrightarrow> session_inv (transcript_listener data s)"
  by (auto simp: session_inv_def transcript_listener_def nf less_Suc_eq)

lemma session_inv_step: "session_inv s \<Longrightarrow> session_inv (step rt s e)"
proof (cases rule: step_cases[of e rt s])
  case (Transcript c data)
  assume "session_inv s"
  then show ?thesis unfolding Transcript(3)
    by (rule funpow_invariant[rotated]) (rule session_inv_listener)
next
  case (Media m p)
  assume "session_inv s"
  then show ?thesis unfolding Media(5)
    by (auto simp: session_inv_def handler_defs nf less_Suc_eq split: option.splits)
next
  case (Start m)
  assume "session_inv s"
  then show ?thesis unfolding Start(3)
    by (auto simp: session_inv_def handler_defs nf less_Suc_eq split: option.splits)
qed (auto simp: session_inv_def handler_defs nf less_Suc_eq split: option.splits)

lemma session_inv_run: "session_inv s \<Longrightarrow> session_inv (run rt s es)"
  unfolding run_def by (induction es arbitrary: s) (simp_all add: session_inv_step)

lemma session_inv_handleStream: "session_inv (handleStream rt cs v t0)"
  by (simp add: session_inv_def handleStream_def)

subsection \<open>A pending turn timer\<close>

lemma armed_listener: "armed t h D s \<Longrightarrow> armed t h D (transcript_listener data s)"
  by (auto simp: armed_def transcript_listener_def nf less_Suc_eq split: option.splits)

lemma armed_step: "armed t h D s \<Longrightarrow> \<not> settles t e \<Longrightarrow> armed t h D (step rt s e)"
proof (cases rule: step_cases[of e rt s])
  case (Transcript c data)
  assume "armed t h D s"
  then show ?thesis unfolding Transcript(3)
    by (rule funpow_invariant[rotated]) (rule armed_listener)
next
  case (Media m p)
  assume "armed t h D s"
  then show ?thesis unfolding Media(5)
    by (auto simp: armed_def handler_defs nf less_Suc_eq split: option.splits)
next
  case (Start m)
  assume "armed t h D s"
  then show ?thesis unfolding Start(3)
    by (auto simp: armed_def handler_defs nf less_Suc_eq split: option.splits)
next
  case (Tick d)
  assume "armed t h D s"
  then show ?thesis unfolding Tick(2)
    by (auto simp: armed_def nf is_due_def)
qed (auto simp: armed_def handler_defs nf less_Suc_eq split: option.splits)

lemma armed_run:
  "armed t h D s \<Longrightarrow> \<forall>e\<in>set es. \<not> settles t e \<Longrightarrow> armed t h D (run rt s es)"
  unfolding run_def by (induction es arbitrary: s) (simp_all add: armed_step)

lemma armed_onTranscript:
  "session_inv s \<Longrightarrow> trim text \<noteq> [] \<Longrightarrow>
   armed (next_task s) (next_timer s) (now s + MAX_TURN_DURATION_MS) (onTranscript text True s)"
  by (auto simp: armed_def session_inv_def nf)

lemma armed_fires:
  "armed t h D s \<Longrightarrow> now s < D \<Longrightarrow> D \<le> now s + d \<Longrightarrow>
   \<not> isSpeaking (ctx (tick d s)) \<and> (h, D, TurnCallback) \<notin> set (timers (tick d s))"
  by (auto simp: armed_def nf is_due_def turn_due_def intro!: bexI[of _ "(h, D, TurnCallback)"])

subsection \<open>A bridge without a connection\<close>

lemma media_frames_forwarded: "forwarded (media_frames audio s) = []"
  by (simp add: forwarded_def media_frames_def split: option.splits)

lemma forwarded_append: "forwarded (xs @ ys) = forwarded xs @ forwarded ys"
  by (simp add: forwarded_def)

lemma detached_listener: "detached b fw s \<Longrightarrow> detached b fw (transcript_listener data s)"
  by (auto simp: detached_def transcript_listener_def nf forwarded_def)

lemma detached_step: "detached b fw s \<Longrightarrow> \<not> is_stop e \<Longrightarrow> detached b fw (step rt s e)"
proof (cases rule: step_cases[of e rt s])
  case (Transcript c data)
  assume "detached b fw s"
  then show ?thesis unfolding Transcript(3)
    by (rule funpow_invariant[rotated]) (rule detached_listener)
next
  case (Stop m)
  assume "\<not> is_stop e"
  with Stop show ?thesis by simp
qed (auto simp: detached_def handler_defs nf forwarded_append media_frames_forwarded
       split: option.splits, auto simp: forwarded_def)

lemma detached_run:
  "detached b fw s \<Longrightarrow> \<forall>e\<in>set es. \<not> is_stop e \<Longrightarrow> detached b fw (run rt s es)"
  unfolding run_def by (induction es arbitrary: s) (simp_all add: detached_step)

lemma detached_close:
  "sttStream s = Some b \<Longrightarrow> detached b (forwarded (trace (step rt s WsClose))) (step rt s WsClose)"
  by (auto simp: detached_def handler_defs nf split: option.splits)

subsection \<open>The conversation history\<close>

lemma messages_listener:
  "prefix xs (messages (ctx s)) \<Longrightarrow> prefix xs (messages (ctx (transcript_listener data s)))"
  by (auto simp: transcript_listener_def nf)

lemma messages_step: "prefix xs (messages (ctx s)) \<Longrightarrow> prefix xs (messages (ctx (step rt s e)))"
proof (cases rule: step_cases[of e rt s])
  case (Transcript c data)
  assume "prefix xs (messages (ctx s))"
  then show ?thesis unfolding Transcript(3)
    by (rule funpow_invariant[rotated]) (rule messages_listener)
qed (auto simp: handler_defs nf split: option.splits)

lemma messages_run: "prefix xs (messages (ctx s)) \<Longrightarrow> prefix xs (messages (ctx (run rt s es)))"
  unfolding run_def by (induction es arbitrary: s) (simp_all add: messages_step)

lemma brain_done_listener: "brain_done t s \<Longrightarrow> brain_done t (transcript_listener data s)"
  by (auto simp: brain_done_def transcript_listener_def nf)

lemma brain_done_step: "brain_done t s \<Longrightarrow> brain_done t (step rt s e)"
proof (cases rule: step_cases[of e rt s])
  case (Transcript c data)
  assume "brain_done t s"
  then show ?thesis unfolding Transcript(3)
    by (rule funpow_invariant[rotated]) (rule brain_done_listener)
qed (auto simp: brain_done_def handler_defs nf split: option.splits)

lemma brain_done_run: "brain_done t s \<Longrightarrow> brain_done t (run rt s es)"
  unfolding run_def by (induction es arbitrary: s) (simp_all add: brain_done_step)

subsection \<open>Teardown\<close>

lemma filter_absent: "h \<notin> fst ` set xs \<Longrightarrow> filter (\<lambda>t. fst t \<noteq> h) xs = xs"
  by (induction xs) auto

lemma on_stop_idem: "stop_done s \<Longrightarrow> on_stop s = s"
  by (cases s) (simp add: on_stop_def stop_done_def)

lemma on_close_idem: "close_done s \<Longrightarrow> on_close (s\<lparr>readyState := CLOSED\<rparr>) = s"
  by (cases s) (auto simp: on_close_def close_done_def nf clearTimeout_def Let_def filter_absent
      split: option.splits)

lemma stop_done_on_stop: "stop_done (on_stop s)"
  by (simp add: stop_done_def on_stop_def)

lemma close_done_on_stop: "close_done s \<Longrightarrow> close_done (on_stop s)"
  by (auto simp: close_done_def on_stop_def nf split: option.splits)

lemma stop_done_on_close: "stop_done s \<Longrightarrow> stop_done (on_close (s\<lparr>readyState := CLOSED\<rparr>))"
  by (auto simp: stop_done_def on_close_def nf clearTimeout_def Let_def split: option.splits)

lemma close_done_on_close: "close_done (on_close (s\<lparr>readyState := CLOSED\<rparr>))"
  by (auto simp: close_done_def on_close_def nf clearTimeout_def Let_def split: option.splits)

lemma teardown_done:
  "\<forall>e\<in>set tds. is_teardown e \<Longrightarrow>
   ((\<exists>e\<in>set tds. is_stop e) \<longrightarrow> stop_done (run rt s tds)) \<and>
   (WsClose \<in> set tds \<longrightarrow> close_done (run rt s tds))"
proof (induction tds rule: rev_induct)
  case Nil
  then show ?case by simp
next
  case (snoc e tds)
  then have ih: "(\<exists>e\<in>set tds. is_stop e) \<longrightarrow> stop_done (run rt s tds)"
    "WsClose \<in> set tds \<longrightarrow> close_done (run rt s tds)" and td: "is_teardown e"
    by simp_all
  show ?case
  proof (cases "is_stop e")
    case True
    then have ne: "e \<noteq> WsClose" by auto
    from True have "step rt (run rt s tds) e = on_stop (run rt s tds)" by (rule step_stop)
    with ih True ne show ?thesis
      by (auto simp: run_snoc stop_done_on_stop close_done_on_stop)
  next
    case False
    with td have e: "e = WsClose" by (simp add: is_teardown_def)
    with ih show ?thesis
      by (auto simp: run_snoc stop_done_on_close close_done_on_close)
  qed
qed

lemma teardown_repeat:
  assumes "\<forall>e\<in>set tds. is_teardown e" "e \<in> set tds"
  shows "step rt (run rt s tds) e = run rt s tds"
proof (cases "is_stop e")
  case True
  with assms teardown_done[OF assms(1), of rt s] have "stop_done (run rt s tds)" by blast
  then show ?thesis using True by (simp add: step_stop on_stop_idem)
next
  case False
  with assms have e: "e = WsClose" by (auto simp: is_teardown_def)
  with assms teardown_done[OF assms(1), of rt s] have "close_done (run rt s tds)" by blast
  then show ?thesis using e by (simp add: on_close_idem)
qed

section \<open>Transcripts that do not advance the conversation\<close>

lemma trim_Nil: "trim [] = []"
  by (simp add: trim_def)

lemma funpow_fixed: "f s = s \<Longrightarrow> (f ^^ n) s = s"
  by (induction n) simp_all

lemma onTranscript_ignored: "\<not> isFinal \<or> trim text = [] \<Longrightarrow> onTranscript text isFinal s = s"
  by (auto simp: onTranscript_def)

lemma transcript_listener_ignored:
  "\<not> transcript_isFinal data \<or> trim (transcript_text data) = [] \<Longrightarrow>
   transcript_listener data s = s"
  by (auto simp: transcript_listener_def onTranscript_ignored trim_Nil)

text \<open>
  C6. A transcript that is not final, or whose trimmed text is empty, changes
  nothing: \<^verbatim>\<open>onTranscript\<close> returns the session as it was (history, flags, timers and
  pending work alike), and so does the whole \<^verbatim>\<open>Transcript\<close> event of a connection,
  whatever the number of its listeners. Hence the history changes under a
  transcript event only if the transcript is final and its trimmed text non-empty.
\<close>

theorem transcript_advances_only_when_final_and_nonempty:
  "(\<not> isFinal \<or> trim text = [] \<longrightarrow> onTranscript text isFinal s = s) \<and>
   (\<not> transcript_isFinal data \<or> trim (transcript_text data) = [] \<longrightarrow>
      step rt s (ConnTranscript c data) = s) \<and>
   (messages (ctx (step rt s (ConnTranscript c data))) \<noteq> messages (ctx s) \<longrightarrow>
      transcript_isFinal data \<and> trim (transcript_text data) \<noteq> [])"
proof -
  have a: "\<not> transcript_isFinal data \<or> trim (transcript_text data) = [] \<Longrightarrow>
      step rt s (ConnTranscript c data) = s"
    by (simp add: conn_transcript_def funpow_fixed transcript_listener_ignored)
  have b: "messages (ctx (step rt s (ConnTranscript c data))) \<noteq> messages (ctx s) \<Longrightarrow>
      transcript_isFinal data \<and> trim (transcript_text data) \<noteq> []"
    using a by metis
  show ?thesis using a b onTranscript_ignored by blast
qed

theorem transcript_advances_only_when_final_and_nonempty_witness:
  "onTranscript (js ''   '') True (call0 deepgram_only) = call0 deepgram_only \<and>
   step deepgram_only
     (run deepgram_only (call0 deepgram_only) [media_msg (js ''AAAA''), ConnOpen 0])
     (ConnTranscript 0 (interim_transcript (js ''hel''))) =
   run deepgram_only (call0 deepgram_only) [media_msg (js ''AAAA''), ConnOpen 0]"
proof -
  have h1: "trim (js ''   '') = []" by code_simp
  have h2: "\<not> transcript_isFinal (interim_transcript (js ''hel''))" by code_simp
  show ?thesis
    using h1 h2 transcript_advances_only_when_final_and_nonempty by blast
qed

end
